theory Spec2Isabelle
  imports Complex_Main
begin

section \<open>Data model of a model file\<close>

text \<open>
  The two model files \<^verbatim>\<open>sasmodels/models/cylinder.py\<close> and
  \<^verbatim>\<open>sasmodels/models/core_shell_ellipsoid.py\<close> are declarative: a parameter table, a
  few strings, an effective-radius function \<^verbatim>\<open>ER\<close> and (for the core-shell
  ellipsoid) a demo mapping and a list of regression tests.

  The numeric literals of the tables, of the demo mapping and of the tests are read as
  the real numbers they denote. The two infinities that occur as bounds in the parameter
  tables (\<^verbatim>\<open>inf\<close> and \<^verbatim>\<open>-inf\<close> from numpy) have constructors of their own. Float
  arithmetic (rounding, overflow, \<^verbatim>\<open>nan\<close>) is not interpreted: where a function computes
  on floats, only its signature is kept.
\<close>

datatype bound = NegInf | Finite real | PosInf

text \<open>The comparison \<^verbatim>\<open><=\<close> of floats, on finite values and the two infinities.\<close>

fun bound_le :: "bound \<Rightarrow> bound \<Rightarrow> bool" where
  "bound_le NegInf b = True"
| "bound_le a PosInf = True"
| "bound_le (Finite a) (Finite b) = (a \<le> b)"
| "bound_le a b = False"

text \<open>
  A row of a parameter table is the six-element list
  \<^verbatim>\<open>["name", "units", default, [lower, upper], "type", "description"]\<close>.
\<close>

record parameter =
  pname :: string
  units :: string
  pdefault :: real
  lower :: bound
  upper :: bound
  ptype :: string
  pdescription :: string

definition row :: "string \<Rightarrow> string \<Rightarrow> real \<Rightarrow> bound \<times> bound \<Rightarrow> string \<Rightarrow> string \<Rightarrow> parameter" where
  "row n u d b t s =
     \<lparr>pname = n, units = u, pdefault = d, lower = fst b, upper = snd b, ptype = t, pdescription = s\<rparr>"

text \<open>
  A test is the three-element list \<^verbatim>\<open>[overrides, q, expected]\<close>, where \<^verbatim>\<open>q\<close> is a
  scalar or a pair \<^verbatim>\<open>(qx, qy)\<close>. The override dictionary is kept as an association
  list in the order of the source.
\<close>

datatype qvalue = Q1 real | Q2 real real

record testcase =
  overrides :: "(string \<times> real) list"
  qval :: qvalue
  expected :: real

definition test :: "(string \<times> real) list \<Rightarrow> qvalue \<Rightarrow> real \<Rightarrow> testcase" where
  "test ov qv e = \<lparr>overrides = ov, qval = qv, expected = e\<rparr>"

text \<open>
  The values bound to the names of a model: strings, lists of strings, numbers, a
  parameter table, a keyword dictionary, a list of tests, and functions. A function
  whose body computes on floats is kept by the names of its parameters (\<open>Def\<close>); the
  \<^verbatim>\<open>ER\<close> of the core-shell ellipsoid, which only passes two of its four arguments on,
  is embedded as a function (\<open>Fn4\<close>). A dictionary with string keys (the \<^verbatim>\<open>INFO\<close>
  dictionary of the cylinder, the top-level names of the core-shell ellipsoid module) is
  an association list in the order of the source.
\<close>

datatype pyval =
    Str string
  | StrList "string list"
  | Num real
  | ParamTable "parameter list"
  | Dict "(string \<times> real) list"
  | TestList "testcase list"
  | Def "string list"
  | Fn4 "real \<Rightarrow> real \<Rightarrow> real \<Rightarrow> real \<Rightarrow> real option"

type_synonym namespace = "(string \<times> pyval) list"

text \<open>Python's \<^verbatim>\<open>k in d\<close> for a dictionary \<^verbatim>\<open>d\<close>.\<close>

definition exposes :: "namespace \<Rightarrow> string \<Rightarrow> bool" where
  "exposes d k = (map_of d k \<noteq> None)"


section \<open>The cylinder model\<close>

definition cylinder_parameters :: "parameter list" where
  "cylinder_parameters =
     [row ''sld'' ''1e-6/Ang^2'' 4 (NegInf, PosInf) ''''
        ''Cylinder scattering length density'',
      row ''solvent_sld'' ''1e-6/Ang^2'' 1 (NegInf, PosInf) ''''
        ''Solvent scattering length density'',
      row ''radius'' ''Ang'' 20 (Finite 0, PosInf) ''volume''
        ''Cylinder radius'',
      row ''length'' ''Ang'' 400 (Finite 0, PosInf) ''volume''
        ''Cylinder length'',
      row ''theta'' ''degrees'' 60 (NegInf, PosInf) ''orientation''
        ''In plane angle'',
      row ''phi'' ''degrees'' 60 (NegInf, PosInf) ''orientation''
        ''Out of plane angle'']"

text \<open>
  The dictionary \<^verbatim>\<open>INFO\<close>. Its last entry binds \<^verbatim>\<open>"ER"\<close> to the function
  \<^verbatim>\<open>
  def ER(radius, length):
      ddd = 0.75*radius*(2*radius*length + (length+radius)*(length+pi*radius))
      return 0.5 * (ddd)**(1./3.)
  \<close>
  whose body is float arithmetic throughout (rounded products and sums with numpy's
  \<^verbatim>\<open>pi\<close>, and a float power); the entry keeps its signature.
\<close>

definition INFO :: namespace where
  "INFO =
     [(''name'', Str ''cylinder''),
      (''title'', Str ''Cylinder with uniform scattering length density''),
      (''source'', StrList [''lib/J1.c'', ''lib/gauss76.c'', ''lib/cylkernel.c'', ''cylinder.c'']),
      (''parameters'', ParamTable cylinder_parameters),
      (''description'', Str ''
         f(q)= 2*(sldCyl - sldSolv)*V*sin(qLcos(alpha/2))
                /[qLcos(alpha/2)]*J1(qRsin(alpha/2))/[qRsin(alpha)]

                P(q,alpha)= scale/V*f(q)^(2)+background
                V: Volume of the cylinder
                R: Radius of the cylinder
                L: Length of the cylinder
                J1: The bessel function
                alpha: angle betweenthe axis of the
                cylinder and the q-vector for 1D
                :the ouput is P(q)=scale/V*integral
                from pi/2 to zero of...
                f(q)^(2)*sin(alpha)*dalpha+ bkg
        ''),
      (''ER'', Def [''radius'', ''length''])]"


section \<open>The core-shell ellipsoid model\<close>

definition name :: string where
  "name = ''core_shell_ellipsoid''"

definition title :: string where
  "title = ''Form factor for an spheroid ellipsoid particle with a core shell structure.''"

definition description :: string where
  "description = ''
    [SpheroidCoreShellModel] Calculates the form factor for an spheroid
    ellipsoid particle with a core_shell structure.
    The form factor is averaged over all possible
    orientations of the ellipsoid such that P(q)
    = scale*<f^2>/Vol + bkg, where f is the
    single particle scattering amplitude.
    [Parameters]:
    radius_equat_core = equatorial radius of core, Rminor_core,
    radius_polar_core = polar radius of core, Rmajor_core,
    radius_equat_shell = equatorial radius of shell, Rminor_outer,
    radius_polar_shell = polar radius of shell, Rmajor_outer,
    sld_core = scattering length density of core,
    sld_shell = scattering length density of shell,
    sld_solvent = scattering length density of solvent,
    background = Incoherent bkg
    scale =scale
    Note:It is the users' responsibility to ensure
    that shell radii are larger than core radii,
    especially if both are polydisperse.
    oblate: polar radius < equatorial radius
    prolate :  polar radius > equatorial radius
    ''"

definition category :: string where
  "category = ''shape:ellipsoid''"

definition parameters :: "parameter list" where
  "parameters =
     [row ''radius_equat_core'' ''Ang'' 200 (Finite 0, PosInf) ''volume''
        ''Equatorial radius of core, r minor core'',
      row ''radius_polar_core'' ''Ang'' 10 (Finite 0, PosInf) ''volume''
        ''Polar radius of core, r major core'',
      row ''radius_equat_shell'' ''Ang'' 250 (Finite 0, PosInf) ''volume''
        ''Equatorial radius of shell, r minor outer'',
      row ''radius_polar_shell'' ''Ang'' 30 (Finite 0, PosInf) ''volume''
        ''Polar radius of shell, r major outer'',
      row ''sld_core'' ''1e-6/Ang^2'' 2 (NegInf, PosInf) ''sld''
        ''Core scattering length density'',
      row ''sld_shell'' ''1e-6/Ang^2'' 1 (NegInf, PosInf) ''sld''
        ''Shell scattering length density'',
      row ''sld_solvent'' ''1e-6/Ang^2'' 6.3 (NegInf, PosInf) ''sld''
        ''Solvent scattering length density'',
      row ''theta'' ''degrees'' 0 (NegInf, PosInf) ''orientation''
        ''Oblate orientation wrt incoming beam'',
      row ''phi'' ''degrees'' 0 (NegInf, PosInf) ''orientation''
        ''Oblate orientation in the plane of the detector'']"

definition source :: "string list" where
  "source = [''lib/sph_j1c.c'', ''lib/gfn.c'', ''lib/gauss76.c'', ''core_shell_ellipsoid.c'']"

text \<open>
  \<^verbatim>\<open>
  def ER(radius_equat_core, radius_polar_core, radius_equat_shell, radius_polar_shell):
      from .ellipsoid import ER as ellipsoid_ER
      return ellipsoid_ER(radius_polar_shell, radius_equat_shell)
  \<close>
  The module \<^verbatim>\<open>ellipsoid\<close> is not among the files at hand, so the function it
  exports is a parameter of the embedding; nothing is assumed about it.
\<close>

definition core_shell_ellipsoid_ER ::
  "(real \<Rightarrow> real \<Rightarrow> 'r) \<Rightarrow> real \<Rightarrow> real \<Rightarrow> real \<Rightarrow> real \<Rightarrow> 'r" where
  "core_shell_ellipsoid_ER ellipsoid_ER radius_equat_core radius_polar_core
       radius_equat_shell radius_polar_shell =
     ellipsoid_ER radius_polar_shell radius_equat_shell"

definition demo :: "(string \<times> real) list" where
  "demo =
     [(''scale'', 1), (''background'', 0.001),
      (''radius_equat_core'', 200.0),
      (''radius_polar_core'', 10.0),
      (''radius_equat_shell'', 250.0),
      (''radius_polar_shell'', 30.0),
      (''sld_core'', 2.0),
      (''sld_shell'', 1.0),
      (''sld_solvent'', 6.3),
      (''theta'', 0),
      (''phi'', 0)]"

definition q :: real where
  "q = 0.1"

definition phi :: real where
  "phi = pi / 6"

definition qx :: real where
  "qx = q * cos phi"

definition qy :: real where
  "qy = q * sin phi"

definition tests :: "testcase list" where
  "tests =
     [test [(''radius_equat_core'', 200.0),
            (''radius_polar_core'', 20.0),
            (''radius_equat_shell'', 250.0),
            (''radius_polar_shell'', 30.0),
            (''sld_core'', 2.0),
            (''sld_shell'', 1.0),
            (''sld_solvent'', 6.3),
            (''background'', 0.001),
            (''scale'', 1.0)] (Q1 1.0) 0.00189402,
      test [(''background'', 0.01)] (Q1 0.1) 8.86741,
      test [(''radius_equat_core'', 20.0),
            (''radius_polar_core'', 200.0),
            (''radius_equat_shell'', 54.0),
            (''radius_polar_shell'', 3.0),
            (''sld_core'', 20.0),
            (''sld_shell'', 10.0),
            (''sld_solvent'', 6.0),
            (''background'', 0.0),
            (''scale'', 1.0)] (Q1 0.01) 26150.4,
      test [(''background'', 0.001)] (Q2 0.4 0.5) 0.00170471,
      test [(''radius_equat_core'', 20.0),
            (''radius_polar_core'', 200.0),
            (''radius_equat_shell'', 54.0),
            (''radius_polar_shell'', 3.0),
            (''sld_core'', 20.0),
            (''sld_shell'', 10.0),
            (''sld_solvent'', 6.0),
            (''background'', 0.01),
            (''scale'', 0.01)] (Q2 qx qy) 0.105764]"

text \<open>
  The names the module binds at top level by assignment or \<^verbatim>\<open>def\<close>, in the order of
  the source.
\<close>

definition core_shell_ellipsoid :: "(real \<Rightarrow> real \<Rightarrow> real option) \<Rightarrow> namespace" where
  "core_shell_ellipsoid ellipsoid_ER =
     [(''name'', Str name),
      (''title'', Str title),
      (''description'', Str description),
      (''category'', Str category),
      (''parameters'', ParamTable parameters),
      (''source'', StrList source),
      (''ER'', Fn4 (core_shell_ellipsoid_ER ellipsoid_ER)),
      (''demo'', Dict demo),
      (''q'', Num q),
      (''phi'', Num phi),
      (''qx'', Num qx),
      (''qy'', Num qy),
      (''tests'', TestList tests)]"


section \<open>Derived notions used in the statements\<close>

text \<open>The default of a row lies between the bounds of the row.\<close>

definition bounds_ok :: "parameter \<Rightarrow> bool" where
  "bounds_ok p =
     (bound_le (lower p) (Finite (pdefault p)) \<and> bound_le (Finite (pdefault p)) (upper p))"

text \<open>The role tags of the specification; the plain tag is the empty string.\<close>

definition role_tags :: "string list" where
  "role_tags = [''volume'', ''sld'', ''orientation'', '''']"

definition role_ok :: "parameter \<Rightarrow> bool" where
  "role_ok p = (ptype p \<in> set role_tags)"

definition param_names :: "parameter list \<Rightarrow> string list" where
  "param_names ps = map pname ps"

definition override_names :: "testcase \<Rightarrow> string list" where
  "override_names t = map fst (overrides t)"

text \<open>Every name a test overrides is among the given names.\<close>

definition overrides_within :: "string list \<Rightarrow> testcase \<Rightarrow> bool" where
  "overrides_within names t = list_all (\<lambda>n. n \<in> set names) (override_names t)"

datatype config_error = UnknownParameter string

text \<open>
  Modelled from the spec: the search for an override that names an unknown parameter,
  part of the validation of a model when it is loaded; the loader is not among the files
  at hand. The result is the first of the given override names that is not among the
  known names, if there is one.
\<close>

fun unknown_override :: "string list \<Rightarrow> string list \<Rightarrow> string option" where
  "unknown_override known [] = None"
| "unknown_override known (n # ns) =
     (if n \<in> set known then unknown_override known ns else Some n)"

text \<open>
  Modelled from the spec: the validation of the tests of a model when the model is
  loaded; the loader is not among the files at hand. The specification asks that a test
  whose override names an unknown parameter is ``a configuration error, reported at
  model-load/validation time, not at evaluation time''. Loading looks at the names only,
  neither at the kernel nor at a value of \<^verbatim>\<open>q\<close>; it fails with the configuration
  error at the first unknown name, and otherwise hands the tests on to the evaluation.
\<close>

fun load_tests :: "string list \<Rightarrow> testcase list \<Rightarrow> config_error + testcase list" where
  "load_tests known [] = Inr []"
| "load_tests known (t # ts) =
     (case unknown_override known (override_names t) of
        Some n \<Rightarrow> Inl (UnknownParameter n)
      | None \<Rightarrow> (case load_tests known ts of Inl e \<Rightarrow> Inl e | Inr ts' \<Rightarrow> Inr (t # ts')))"

text \<open>
  The fields of the registration interface that the specification requires of every
  model (\<^verbatim>\<open>ER\<close> is optional).
\<close>

definition registration_fields :: "string list" where
  "registration_fields =
     [''name'', ''title'', ''description'', ''category'', ''parameters'', ''source'',
      ''demo'', ''tests'']"


section \<open>The effective radius of the core-shell ellipsoid\<close>

text \<open>
  C3. The \<^verbatim>\<open>ER\<close> of the core-shell ellipsoid depends on the shell radii only: two calls
  that agree on \<^verbatim>\<open>radius_equat_shell\<close> and \<^verbatim>\<open>radius_polar_shell\<close> return the same
  value whatever the core radii are, namely the ellipsoid's \<^verbatim>\<open>ER\<close> at
  \<^verbatim>\<open>radius_polar_shell\<close> and \<^verbatim>\<open>radius_equat_shell\<close>, in this order.
\<close>

theorem core_shell_ellipsoid_ER_shell_only:
  "core_shell_ellipsoid_ER ellipsoid_ER c1 p1 radius_equat_shell radius_polar_shell
     = core_shell_ellipsoid_ER ellipsoid_ER c2 p2 radius_equat_shell radius_polar_shell
   \<and> core_shell_ellipsoid_ER ellipsoid_ER c1 p1 radius_equat_shell radius_polar_shell
     = ellipsoid_ER radius_polar_shell radius_equat_shell"
  by (simp add: core_shell_ellipsoid_ER_def)


section \<open>The parameter tables\<close>

text \<open>
  C4. In both parameter tables, the one of the core-shell ellipsoid and the one under
  \<^verbatim>\<open>"parameters"\<close> in the cylinder's \<^verbatim>\<open>INFO\<close>, every row has
  lower bound \<open>\<le>\<close> default \<open>\<le>\<close> upper bound, where a bound may be infinite.
\<close>

theorem parameter_bounds_ok:
  "map_of INFO ''parameters'' = Some (ParamTable cylinder_parameters)
   \<and> list_all bounds_ok cylinder_parameters
   \<and> list_all bounds_ok parameters"
  by (simp add: INFO_def cylinder_parameters_def parameters_def bounds_ok_def row_def)

text \<open>
  C6. In both parameter tables the type of every row is one of the role tags
  \<^verbatim>\<open>"volume"\<close>, \<^verbatim>\<open>"sld"\<close>, \<^verbatim>\<open>"orientation"\<close> and the plain, empty tag.
\<close>

theorem parameter_roles_ok:
  "map_of INFO ''parameters'' = Some (ParamTable cylinder_parameters)
   \<and> list_all role_ok cylinder_parameters
   \<and> list_all role_ok parameters"
  by (simp add: INFO_def cylinder_parameters_def parameters_def role_ok_def role_tags_def row_def)


section \<open>The tests of the core-shell ellipsoid\<close>

text \<open>
  C5, as stated: every name that a test of the core-shell ellipsoid overrides is a name
  of the model's parameter table. It fails: the second test overrides only
  \<^verbatim>\<open>background\<close>, which the table does not list.
\<close>

theorem overrides_in_table_counterexample:
  "\<not> overrides_within (param_names parameters) (tests ! 1)
   \<and> override_names (tests ! 1) = [''background'']
   \<and> \<not> list_all (overrides_within (param_names parameters)) tests"
  by (simp add: overrides_within_def param_names_def override_names_def parameters_def tests_def
      test_def row_def)

lemma unknown_override_None:
  "unknown_override known ns = None \<longleftrightarrow> list_all (\<lambda>n. n \<in> set known) ns"
  by (induction ns) simp_all

lemma unknown_override_Some:
  "unknown_override known ns = Some n \<Longrightarrow> n \<notin> set known \<and> n \<in> set ns"
  by (induction ns) (auto split: if_splits)

lemma load_tests_known:
  "list_all (overrides_within known) ts \<Longrightarrow> load_tests known ts = Inr ts"
proof (induction ts)
  case Nil
  show ?case by simp
next
  case (Cons t ts)
  then have "unknown_override known (override_names t) = None"
    by (simp add: overrides_within_def unknown_override_None)
  moreover have "load_tests known ts = Inr ts" using Cons by simp
  ultimately show ?case by simp
qed

lemma load_tests_unknown:
  "\<not> list_all (overrides_within known) ts \<Longrightarrow>
     \<exists>n. n \<notin> set known \<and> n \<in> set (concat (map override_names ts))
       \<and> load_tests known ts = Inl (UnknownParameter n)"
proof (induction ts)
  case Nil
  then show ?case by simp
next
  case (Cons t ts)
  show ?case
  proof (cases "unknown_override known (override_names t)")
    case (Some n)
    then have "n \<notin> set known \<and> n \<in> set (override_names t)"
      by (rule unknown_override_Some)
    then show ?thesis using Some by auto
  next
    case None
    then have "overrides_within known t"
      by (simp add: overrides_within_def unknown_override_None)
    then have "\<not> list_all (overrides_within known) ts" using Cons.prems by simp
    then obtain n where n: "n \<notin> set known" "n \<in> set (concat (map override_names ts))"
      "load_tests known ts = Inl (UnknownParameter n)"
      using Cons.IH by blast
    then show ?thesis using None by auto
  qed
qed

text \<open>
  C5, amended: every name that a test of the core-shell ellipsoid overrides is a name of
  the model's parameter table or one of \<^verbatim>\<open>scale\<close> and \<^verbatim>\<open>background\<close>. Neither of
  the two is a name of the table, and they are exactly the keys of the module's
  \<^verbatim>\<open>demo\<close> mapping that the table does not list, so that every overridden name is a key
  of \<^verbatim>\<open>demo\<close>. With the names of the table and these two as the known names, loading
  accepts the tests of the module unchanged. For any known names and tests, loading
  accepts the tests unchanged when every override is known, and otherwise fails, before
  any evaluation, with the configuration error for an overridden name that is not known.
\<close>

theorem overrides_in_table_or_common:
  "list_all (overrides_within (param_names parameters @ [''scale'', ''background''])) tests
   \<and> ''scale'' \<notin> set (param_names parameters)
   \<and> ''background'' \<notin> set (param_names parameters)
   \<and> filter (\<lambda>k. k \<notin> set (param_names parameters)) (map fst demo) = [''scale'', ''background'']
   \<and> set (map fst demo) = set (param_names parameters @ [''scale'', ''background''])
   \<and> list_all (overrides_within (map fst demo)) tests
   \<and> load_tests (param_names parameters @ [''scale'', ''background'']) tests = Inr tests
   \<and> (list_all (overrides_within known) ts \<longrightarrow> load_tests known ts = Inr ts)
   \<and> (\<not> list_all (overrides_within known) ts \<longrightarrow>
        (\<exists>n. n \<notin> set known \<and> n \<in> set (concat (map override_names ts))
           \<and> load_tests known ts = Inl (UnknownParameter n)))"
proof -
  have a: "list_all (overrides_within (param_names parameters @ [''scale'', ''background''])) tests"
    by (simp add: overrides_within_def param_names_def override_names_def parameters_def
        tests_def test_def row_def)
  have b: "''scale'' \<notin> set (param_names parameters)"
    "''background'' \<notin> set (param_names parameters)"
    by (simp_all add: param_names_def parameters_def row_def)
  have c: "filter (\<lambda>k. k \<notin> set (param_names parameters)) (map fst demo)
      = [''scale'', ''background'']"
    by (simp add: param_names_def parameters_def row_def demo_def)
  have d: "set (map fst demo) = set (param_names parameters @ [''scale'', ''background''])"
    by (simp add: param_names_def parameters_def row_def demo_def insert_commute)
  have e: "list_all (overrides_within (map fst demo)) tests"
    by (simp add: overrides_within_def override_names_def tests_def test_def demo_def)
  have f: "load_tests (param_names parameters @ [''scale'', ''background'']) tests = Inr tests"
    using a by (rule load_tests_known)
  show ?thesis
    using a b c d e f load_tests_known [of known ts] load_tests_unknown [of known ts]
    by blast
qed

theorem overrides_in_table_or_common_witness:
  "list_all (overrides_within (param_names parameters @ [''scale'', ''background''])) tests
   \<and> load_tests (param_names parameters @ [''scale'', ''background'']) tests = Inr tests
   \<and> \<not> list_all (overrides_within (param_names parameters)) tests
   \<and> ''background'' \<notin> set (param_names parameters)
   \<and> ''background'' \<in> set (concat (map override_names tests))
   \<and> load_tests (param_names parameters) tests = Inl (UnknownParameter ''background'')"
proof -
  have "load_tests (param_names parameters) tests = Inl (UnknownParameter ''background'')"
    by (simp add: param_names_def override_names_def parameters_def tests_def test_def row_def)
  moreover have "''background'' \<in> set (concat (map override_names tests))"
    by (simp add: override_names_def tests_def test_def)
  ultimately show ?thesis
    using overrides_in_table_or_common [of "param_names parameters @ [''scale'', ''background'']" tests]
      overrides_in_table_or_common [of "param_names parameters" tests]
    by auto
qed

text \<open>
  C9. The last test of the core-shell ellipsoid is at the pair \<^verbatim>\<open>(qx, qy)\<close> with
  \<open>qx = 0.1 cos (\<pi>/6)\<close> and \<open>qy = 0.1 sin (\<pi>/6)\<close>, so over the reals
  \<open>qx\<^sup>2 + qy\<^sup>2 = 0.1\<^sup>2\<close>: the pair has the magnitude \<open>0.1\<close>, the value of \<^verbatim>\<open>q\<close> in the
  one-dimensional second test.
\<close>

theorem qx_qy_magnitude:
  "qval (last tests) = Q2 qx qy
   \<and> qx = 0.1 * cos (pi / 6) \<and> qy = 0.1 * sin (pi / 6)
   \<and> qx\<^sup>2 + qy\<^sup>2 = 0.1\<^sup>2
   \<and> sqrt (qx\<^sup>2 + qy\<^sup>2) = 0.1
   \<and> qval (tests ! 1) = Q1 0.1"
proof -
  have m: "qx\<^sup>2 + qy\<^sup>2 = (0.1::real)\<^sup>2"
  proof -
    have "qx\<^sup>2 + qy\<^sup>2 = q\<^sup>2 * ((cos phi)\<^sup>2 + (sin phi)\<^sup>2)"
      by (simp only: qx_def qy_def power_mult_distrib distrib_left)
    also have "\<dots> = q\<^sup>2" by simp
    finally show ?thesis by (simp add: q_def)
  qed
  have s: "sqrt (qx\<^sup>2 + qy\<^sup>2) = 0.1"
    unfolding m by (simp add: real_sqrt_divide)
  have t: "qval (last tests) = Q2 qx qy" "qval (tests ! 1) = Q1 0.1"
    by (simp_all add: tests_def test_def)
  show ?thesis using m s t by (simp add: qx_def qy_def q_def phi_def)
qed


section \<open>The registration interface\<close>

text \<open>
  C7, as stated: each of the two descriptors exposes \<^verbatim>\<open>name\<close>, \<^verbatim>\<open>title\<close>,
  \<^verbatim>\<open>description\<close>, \<^verbatim>\<open>category\<close>, \<^verbatim>\<open>parameters\<close>, \<^verbatim>\<open>source\<close>, \<^verbatim>\<open>demo\<close> and
  \<^verbatim>\<open>tests\<close>. It fails for the cylinder: \<^verbatim>\<open>INFO\<close> has no \<^verbatim>\<open>category\<close>, no
  \<^verbatim>\<open>demo\<close> and no \<^verbatim>\<open>tests\<close>.
\<close>

theorem cylinder_registration_counterexample:
  "\<not> exposes INFO ''category'' \<and> \<not> exposes INFO ''demo'' \<and> \<not> exposes INFO ''tests''
   \<and> \<not> list_all (exposes INFO) registration_fields"
  by (simp add: exposes_def INFO_def registration_fields_def)

text \<open>
  C7, amended: the core-shell ellipsoid module exposes all eight fields and \<^verbatim>\<open>ER\<close>; of
  the eight, the cylinder's \<^verbatim>\<open>INFO\<close> exposes \<^verbatim>\<open>name\<close>, \<^verbatim>\<open>title\<close>,
  \<^verbatim>\<open>description\<close>, \<^verbatim>\<open>parameters\<close> and \<^verbatim>\<open>source\<close> and no other, and it exposes
  \<^verbatim>\<open>ER\<close>.
\<close>

theorem registration_fields_exposed:
  "list_all (exposes (core_shell_ellipsoid ellipsoid_ER)) registration_fields
   \<and> exposes (core_shell_ellipsoid ellipsoid_ER) ''ER''
   \<and> filter (exposes INFO) registration_fields
       = [''name'', ''title'', ''description'', ''parameters'', ''source'']
   \<and> exposes INFO ''ER''"
  by (simp add: exposes_def INFO_def core_shell_ellipsoid_def registration_fields_def)

end
